theory Spec2Isabelle
  imports Main "HOL-Library.Sublist"
begin

section \<open>Values on the stack\<close>

text \<open>
  The manual simulation keeps JavaScript strings (mock signatures, keys, hashes) and the
  numbers \<open>1\<close> and \<open>0\<close> (the results of \<open>OP_EQUAL\<close> and \<open>OP_CHECKSIG\<close>) on its stack.
  \<open>Num n\<close> stands for the integer-valued number \<open>n\<close>. JavaScript's \<open>null\<close> is what
  \<open>pop\<close> and \<open>peek\<close> return on an empty stack; it is modelled by \<open>None\<close> and is not
  an item. Strict equality \<open>===\<close> on these values is equality of the datatype: a string
  never equals a number.
\<close>

datatype item = Str string | Num int

text \<open>
  The template literal \<open>`hash-${item}`\<close> converts the item to text: a string is taken
  as it is, an integer of magnitude below \<open>1e21\<close> is written in decimal digits. For
  larger numbers JavaScript switches to exponent notation, which \<open>to_string\<close> does not
  follow; the stacks of the program hold strings and the numbers \<open>0\<close> and \<open>1\<close> only.
\<close>

fun digits :: "nat \<Rightarrow> string" where
  "digits n =
     (if n < 10 then [char_of (48 + n)]
      else digits (n div 10) @ [char_of (48 + n mod 10)])"

declare digits.simps [simp del]

fun to_string :: "item \<Rightarrow> string" where
  "to_string (Str s) = s"
| "to_string (Num n) = (if n < 0 then CHR ''-'' # digits (nat (- n)) else digits (nat n))"

section \<open>The class \<open>Stack\<close>\<close>

text \<open>
  \<open>items\<close> is the JavaScript array: the bottom of the stack is its first element, the
  top its last. Every method that mutates the object returns the updated stack next to
  its result.
\<close>

record stack =
  items :: "item list"

definition new_Stack :: stack where
  "new_Stack = \<lparr>items = []\<rparr>"

definition push :: "'a stack_scheme \<Rightarrow> item \<Rightarrow> nat \<times> 'a stack_scheme" where
  "push s item =
     (let s' = s\<lparr>items := items s @ [item]\<rparr> in (length (items s'), s'))"

definition pop :: "'a stack_scheme \<Rightarrow> item option \<times> 'a stack_scheme" where
  "pop s =
     (if length (items s) = 0 then (None, s)
      else (Some (last (items s)), s\<lparr>items := butlast (items s)\<rparr>))"

definition peek :: "'a stack_scheme \<Rightarrow> item option" where
  "peek s =
     (if length (items s) = 0 then None
      else Some (items s ! (length (items s) - 1)))"

section \<open>The opcode functions\<close>

text \<open>
  Each function returns its boolean result and the stack as the call leaves it.
\<close>

definition OP_DUP :: "'a stack_scheme \<Rightarrow> bool \<times> 'a stack_scheme" where
  "OP_DUP s =
     (case peek s of
        None \<Rightarrow> (False, s)
      | Some item \<Rightarrow> (True, snd (push s item)))"

definition OP_HASH160 :: "'a stack_scheme \<Rightarrow> bool \<times> 'a stack_scheme" where
  "OP_HASH160 s =
     (case pop s of
        (None, s1) \<Rightarrow> (False, s1)
      | (Some item, s1) \<Rightarrow> (True, snd (push s1 (Str (''hash-'' @ to_string item)))))"

definition OP_EQUALVERIFY :: "'a stack_scheme \<Rightarrow> bool \<times> 'a stack_scheme" where
  "OP_EQUALVERIFY s =
     (let (b, s1) = pop s;
          (a, s2) = pop s1
      in if a = None \<or> b = None then (False, s2) else (a = b, s2))"

definition OP_CHECKSIG :: "'a stack_scheme \<Rightarrow> item \<Rightarrow> item \<Rightarrow> bool \<times> 'a stack_scheme" where
  "OP_CHECKSIG s publicKey signature =
     (let (pubKey, s1) = pop s;
          (sig, s2) = pop s1
      in if pubKey = None \<or> sig = None then (False, s2)
         else let isValid = (pubKey = Some publicKey \<and> sig = Some signature)
              in (True, snd (push s2 (Num (if isValid then 1 else 0)))))"

definition OP_EQUAL :: "'a stack_scheme \<Rightarrow> bool \<times> 'a stack_scheme" where
  "OP_EQUAL s =
     (let (b, s1) = pop s;
          (a, s2) = pop s1
      in if a = None \<or> b = None then (False, s2)
         else (True, snd (push s2 (Num (if a = b then 1 else 0)))))"

section \<open>The manual runs\<close>

text \<open>
  The script replays two scripts statement by statement. The values it pushes and the
  values it hands to \<open>OP_CHECKSIG\<close> are constants of the script; here they are
  parameters, so that a run over other data can be stated, and the script's own runs
  are the instances at its constants. The result is the list of values the opcode calls
  return, in order of execution, and the stack after the last call.
\<close>

datatype verdict = VALID | INVALID

definition validation_result :: "'a stack_scheme \<Rightarrow> verdict" where
  "validation_result s = (if peek s = Some (Num 1) then VALID else INVALID)"

text \<open>
  \<open><signature> <publicKey> OP_DUP OP_HASH160 <publicKeyHash> OP_EQUALVERIFY OP_CHECKSIG\<close>;
  \<open>expectedKey\<close> and \<open>expectedSig\<close> are the arguments of the call of \<open>OP_CHECKSIG\<close>.
\<close>

definition p2pkh_run :: "item \<Rightarrow> item \<Rightarrow> item \<Rightarrow> item \<Rightarrow> item \<Rightarrow> bool list \<times> stack" where
  "p2pkh_run sigItem keyItem hashItem expectedKey expectedSig =
     (let s0 = new_Stack;
          s1 = snd (push s0 sigItem);
          s2 = snd (push s1 keyItem);
          (dupResult, s3) = OP_DUP s2;
          (hashResult, s4) = OP_HASH160 s3;
          s5 = snd (push s4 hashItem);
          (equalResult, s6) = OP_EQUALVERIFY s5;
          (checksigResult, s7) = OP_CHECKSIG s6 expectedKey expectedSig
      in ([dupResult, hashResult, equalResult, checksigResult], s7))"

text \<open>\<open><sig1> <sig2> <redeemScript> OP_HASH160 <redeemScriptHash> OP_EQUAL\<close>\<close>

definition p2sh_run :: "item \<Rightarrow> item \<Rightarrow> item \<Rightarrow> item \<Rightarrow> bool list \<times> stack" where
  "p2sh_run sigItem1 sigItem2 scriptItem hashItem =
     (let s0 = new_Stack;
          s1 = snd (push s0 sigItem1);
          s2 = snd (push s1 sigItem2);
          s3 = snd (push s2 scriptItem);
          (hashResult, s4) = OP_HASH160 s3;
          s5 = snd (push s4 hashItem);
          (equalResult, s6) = OP_EQUAL s5
      in ([hashResult, equalResult], s6))"

text \<open>The constants of the script and its two runs.\<close>

definition signature :: item where
  "signature = Str ''valid-signature''"

definition publicKey :: item where
  "publicKey = Str ''actual-public-key''"

definition publicKeyHash :: item where
  "publicKeyHash = Str ''hash-actual-public-key''"

definition sig1 :: item where
  "sig1 = Str ''signature-1''"

definition sig2 :: item where
  "sig2 = Str ''signature-2''"

definition redeemScript :: item where
  "redeemScript = Str ''redeem-script''"

definition redeemScriptHash :: item where
  "redeemScriptHash = Str ''hash-redeem-script''"

definition p2pkh_demo :: "bool list \<times> stack" where
  "p2pkh_demo = p2pkh_run signature publicKey publicKeyHash publicKey signature"

definition p2sh_demo :: "bool list \<times> stack" where
  "p2sh_demo = p2sh_run sig1 sig2 redeemScript redeemScriptHash"

section \<open>The opcode \<open>CHECKMULTISIG\<close> of the specification\<close>

text \<open>
  The source builds multisig scripts through a library and never executes one: it has
  no function for \<open>CHECKMULTISIG\<close>, no key list and no signature check against a key.
  The definitions of this section are therefore taken from the specification (section
  4.2, the opcode, and section 4.1, the stack), on lists of items whose last element is
  the top of the stack. The Signature Verifier is a parameter, as the specification
  injects it; so is the reading of a count item as a number, which the specification
  leaves to the script encoding.
\<close>








section \<open>Basic facts about the stack methods\<close>

lemma push_items: "items (snd (push s x)) = items s @ [x]"
  by (simp add: push_def Let_def)

lemma pop_empty: "items s = [] \<Longrightarrow> pop s = (None, s)"
  by (simp add: pop_def)

lemma pop_snoc: "items s = xs @ [x] \<Longrightarrow> pop s = (Some x, s\<lparr>items := xs\<rparr>)"
  by (simp add: pop_def)

lemma peek_empty: "items s = [] \<Longrightarrow> peek s = None"
  by (simp add: peek_def)

lemma peek_snoc: "items s = xs @ [x] \<Longrightarrow> peek s = Some x"
  by (simp add: peek_def)

lemma pop_two: "items s = rest @ [a, b] \<Longrightarrow> pop s = (Some b, s\<lparr>items := rest @ [a]\<rparr>)"
  by (simp add: pop_def butlast_append)

lemma OP_DUP_empty: "items s = [] \<Longrightarrow> OP_DUP s = (False, s)"
  by (simp add: OP_DUP_def peek_empty)

lemma OP_DUP_snoc: "items s = rest @ [x] \<Longrightarrow> OP_DUP s = (True, s\<lparr>items := rest @ [x, x]\<rparr>)"
  by (simp add: OP_DUP_def peek_snoc push_def Let_def)

lemma OP_HASH160_empty: "items s = [] \<Longrightarrow> OP_HASH160 s = (False, s)"
  by (simp add: OP_HASH160_def pop_empty)

lemma OP_HASH160_snoc:
  "items s = rest @ [x] \<Longrightarrow>
   OP_HASH160 s = (True, s\<lparr>items := rest @ [Str (''hash-'' @ to_string x)]\<rparr>)"
  by (simp add: OP_HASH160_def pop_snoc push_def Let_def)

lemma OP_EQUAL_empty: "items s = [] \<Longrightarrow> OP_EQUAL s = (False, s)"
  by (simp add: OP_EQUAL_def pop_empty)

lemma OP_EQUAL_single: "items s = [x] \<Longrightarrow> OP_EQUAL s = (False, s\<lparr>items := []\<rparr>)"
  by (simp add: OP_EQUAL_def pop_def)

lemma OP_EQUAL_two:
  "items s = rest @ [a, b] \<Longrightarrow>
   OP_EQUAL s = (True, s\<lparr>items := rest @ [Num (if a = b then 1 else 0)]\<rparr>)"
  by (simp add: OP_EQUAL_def pop_two pop_snoc push_def Let_def)

lemma OP_EQUALVERIFY_empty: "items s = [] \<Longrightarrow> OP_EQUALVERIFY s = (False, s)"
  by (simp add: OP_EQUALVERIFY_def pop_empty)

lemma OP_EQUALVERIFY_single: "items s = [x] \<Longrightarrow> OP_EQUALVERIFY s = (False, s\<lparr>items := []\<rparr>)"
  by (simp add: OP_EQUALVERIFY_def pop_def)

lemma OP_EQUALVERIFY_two:
  "items s = rest @ [a, b] \<Longrightarrow> OP_EQUALVERIFY s = (a = b, s\<lparr>items := rest\<rparr>)"
  by (simp add: OP_EQUALVERIFY_def pop_two pop_snoc)

lemma OP_CHECKSIG_empty: "items s = [] \<Longrightarrow> OP_CHECKSIG s k g = (False, s)"
  by (simp add: OP_CHECKSIG_def pop_empty)

lemma OP_CHECKSIG_single: "items s = [x] \<Longrightarrow> OP_CHECKSIG s k g = (False, s\<lparr>items := []\<rparr>)"
  by (simp add: OP_CHECKSIG_def pop_def)

lemma OP_CHECKSIG_two:
  "items s = rest @ [sg, pk] \<Longrightarrow>
   OP_CHECKSIG s k g = (True, s\<lparr>items := rest @ [Num (if pk = k \<and> sg = g then 1 else 0)]\<rparr>)"
  by (simp add: OP_CHECKSIG_def pop_two pop_snoc push_def Let_def)

lemma cases3: "xs = [] \<or> (\<exists>x. xs = [x]) \<or> (\<exists>rest a b. xs = rest @ [a, b])"
  by (cases xs rule: rev_cases; cases "butlast xs" rule: rev_cases) (auto simp: butlast_append)

lemma two_items: "2 \<le> length xs \<Longrightarrow> \<exists>rest a b. xs = rest @ [a, b]"
  using cases3 [of xs] by auto

lemma peek_last: "peek s = (if items s = [] then None else Some (last (items s)))"
  by (simp add: peek_def last_conv_nth)

lemma p2pkh_run_eq:
  "p2pkh_run sg pk h k g =
     ([True, True, Str (''hash-'' @ to_string pk) = h, True],
      \<lparr>items = [Num (if pk = k \<and> sg = g then 1 else 0)]\<rparr>)"
  by (simp add: p2pkh_run_def new_Stack_def push_def pop_def peek_def OP_DUP_def
      OP_HASH160_def OP_EQUALVERIFY_def OP_CHECKSIG_def Let_def)

lemma p2sh_run_eq:
  "p2sh_run a b r h =
     ([True, True],
      \<lparr>items = [a, b, Num (if Str (''hash-'' @ to_string r) = h then 1 else 0)]\<rparr>)"
  by (simp add: p2sh_run_def new_Stack_def push_def pop_def OP_HASH160_def OP_EQUAL_def Let_def)

lemma validation_result_VALID:
  "(validation_result s = VALID) = (items s \<noteq> [] \<and> last (items s) = Num 1)"
  by (simp add: validation_result_def peek_last)

section \<open>Facts about the opcode of the specification\<close>











section \<open>The claims\<close>

text \<open>
  C10. \<open>pop\<close> and \<open>peek\<close> on an empty stack return the defined failure value
  \<open>null\<close> (here \<open>None\<close>), and the stack is still empty afterwards.
\<close>

theorem pop_peek_empty_defined:
  "items s = [] \<Longrightarrow> pop s = (None, s) \<and> peek s = None \<and> items (snd (pop s)) = []"
  by (simp add: pop_empty peek_empty)

theorem pop_peek_empty_defined_witness:
  "items new_Stack = [] \<and> pop new_Stack = (None, new_Stack) \<and> peek new_Stack = None
   \<and> items (snd (pop new_Stack)) = []"
  using pop_peek_empty_defined [of new_Stack] by (simp add: new_Stack_def)

text \<open>
  C8. \<open>OP_EQUAL\<close> reports failure exactly when the stack holds fewer than two items,
  whatever the items are; on a stack whose two top items are \<open>a\<close> (below) and \<open>b\<close>
  (top) it removes both and pushes \<open>1\<close> if they are equal and \<open>0\<close> otherwise.
\<close>

theorem OP_EQUAL_result:
  "fst (OP_EQUAL s) = (2 \<le> length (items s)) \<and>
   (\<forall>rest a b. items s = rest @ [a, b] \<longrightarrow>
      OP_EQUAL s = (True, s\<lparr>items := rest @ [Num (if a = b then 1 else 0)]\<rparr>))"
proof -
  have "fst (OP_EQUAL s) = (2 \<le> length (items s))"
    using cases3 [of "items s"]
    by (auto simp: OP_EQUAL_empty OP_EQUAL_single OP_EQUAL_two)
  then show ?thesis
    by (simp add: OP_EQUAL_two)
qed

theorem OP_EQUAL_result_witness:
  "fst (OP_EQUAL \<lparr>items = [sig1, redeemScriptHash, redeemScriptHash]\<rparr>)
   \<and> OP_EQUAL \<lparr>items = [sig1, redeemScriptHash, redeemScriptHash]\<rparr>
       = (True, \<lparr>items = [sig1, Num 1]\<rparr>)
   \<and> OP_EQUAL \<lparr>items = [sig1, redeemScript, redeemScriptHash]\<rparr>
       = (True, \<lparr>items = [sig1, Num 0]\<rparr>)
   \<and> \<not> fst (OP_EQUAL \<lparr>items = [sig1]\<rparr>)"
  using OP_EQUAL_result [of "\<lparr>items = [sig1, redeemScriptHash, redeemScriptHash]\<rparr>"]
    OP_EQUAL_result [of "\<lparr>items = [sig1, redeemScript, redeemScriptHash]\<rparr>"]
    OP_EQUAL_result [of "\<lparr>items = [sig1]\<rparr>"]
  by (simp add: redeemScript_def redeemScriptHash_def)

text \<open>
  C7. On a stack with exactly one item, \<open>OP_EQUAL\<close>, \<open>OP_EQUALVERIFY\<close> and
  \<open>OP_CHECKSIG\<close> report failure, and by then the item has been popped: the stack is
  left empty, not as it was.
\<close>

theorem single_item_failure_empties_stack:
  "items s = [x] \<Longrightarrow>
     OP_EQUAL s = (False, s\<lparr>items := []\<rparr>) \<and>
     OP_EQUALVERIFY s = (False, s\<lparr>items := []\<rparr>) \<and>
     OP_CHECKSIG s k g = (False, s\<lparr>items := []\<rparr>) \<and>
     items (s\<lparr>items := []\<rparr>) \<noteq> items s"
  by (simp add: OP_EQUAL_single OP_EQUALVERIFY_single OP_CHECKSIG_single)

theorem single_item_failure_empties_stack_witness:
  "items \<lparr>items = [publicKey]\<rparr> = [publicKey] \<and>
   OP_EQUAL \<lparr>items = [publicKey]\<rparr> = (False, \<lparr>items = []\<rparr>) \<and>
   OP_EQUALVERIFY \<lparr>items = [publicKey]\<rparr> = (False, \<lparr>items = []\<rparr>) \<and>
   OP_CHECKSIG \<lparr>items = [publicKey]\<rparr> publicKey signature = (False, \<lparr>items = []\<rparr>)"
  using single_item_failure_empties_stack
    [of "\<lparr>items = [publicKey]\<rparr>" publicKey publicKey signature]
  by simp

text \<open>
  C4. On a stack whose two top items are a signature (below) and a public key (top),
  \<open>OP_CHECKSIG\<close> pops the public key, then the signature, and pushes \<open>1\<close> if the pair
  verifies (the simulation compares it with the expected key and signature) and \<open>0\<close>
  otherwise. In both cases it reports success: a signature or key that does not verify
  makes it push \<open>0\<close>, never fail.
\<close>

theorem OP_CHECKSIG_pushes_verdict:
  "items s = rest @ [sg, pk] \<Longrightarrow>
     OP_CHECKSIG s expectedKey expectedSig =
       (True, s\<lparr>items := rest @ [Num (if pk = expectedKey \<and> sg = expectedSig then 1 else 0)]\<rparr>)"
  by (rule OP_CHECKSIG_two)

theorem OP_CHECKSIG_pushes_verdict_witness:
  "OP_CHECKSIG \<lparr>items = [sig1, signature, publicKey]\<rparr> publicKey signature
     = (True, \<lparr>items = [sig1, Num 1]\<rparr>) \<and>
   OP_CHECKSIG \<lparr>items = [sig1, Str [], publicKey]\<rparr> publicKey signature
     = (True, \<lparr>items = [sig1, Num 0]\<rparr>)"
  using OP_CHECKSIG_pushes_verdict
      [of "\<lparr>items = [sig1, signature, publicKey]\<rparr>" "[sig1]" signature publicKey
        publicKey signature]
    OP_CHECKSIG_pushes_verdict
      [of "\<lparr>items = [sig1, Str [], publicKey]\<rparr>" "[sig1]" "Str []" publicKey
        publicKey signature]
  by (simp add: signature_def)

text \<open>
  C2. The P2PKH run with unlocking data \<open>[sg, pk]\<close>, the hash of \<open>pk\<close> in the locking
  script and a signature check that accepts exactly the pair \<open>(pk, sg)\<close>: every opcode
  reports success, the final stack is \<open>[1]\<close> and the verdict is \<open>VALID\<close>. With any other
  signature \<open>bad\<close> in place of \<open>sg\<close> every opcode still reports success (there is no
  stack underflow), \<open>OP_CHECKSIG\<close> pushes \<open>0\<close>, and the verdict is \<open>INVALID\<close>.
\<close>

theorem p2pkh_valid_and_invalid_signature:
  "p2pkh_run sg pk (Str (''hash-'' @ to_string pk)) pk sg
     = ([True, True, True, True], \<lparr>items = [Num 1]\<rparr>) \<and>
   validation_result (snd (p2pkh_run sg pk (Str (''hash-'' @ to_string pk)) pk sg)) = VALID \<and>
   (bad \<noteq> sg \<longrightarrow>
      p2pkh_run bad pk (Str (''hash-'' @ to_string pk)) pk sg
        = ([True, True, True, True], \<lparr>items = [Num 0]\<rparr>) \<and>
      validation_result (snd (p2pkh_run bad pk (Str (''hash-'' @ to_string pk)) pk sg))
        = INVALID)"
  by (simp add: p2pkh_run_eq validation_result_def peek_last)

theorem p2pkh_valid_and_invalid_signature_witness:
  "Str (replicate 71 (CHR 0x00)) \<noteq> signature \<and>
   p2pkh_demo = ([True, True, True, True], \<lparr>items = [Num 1]\<rparr>) \<and>
   validation_result (snd p2pkh_demo) = VALID \<and>
   p2pkh_run (Str (replicate 71 (CHR 0x00))) publicKey publicKeyHash publicKey signature
     = ([True, True, True, True], \<lparr>items = [Num 0]\<rparr>) \<and>
   validation_result
     (snd (p2pkh_run (Str (replicate 71 (CHR 0x00))) publicKey publicKeyHash publicKey signature))
     = INVALID"
proof -
  have ne: "Str (replicate 71 (CHR 0x00)) \<noteq> signature"
  proof
    assume "Str (replicate 71 (CHR 0x00)) = signature"
    then have "replicate 71 (CHR 0x00) = ''valid-signature''"
      by (simp add: signature_def)
    then have "length (replicate 71 (CHR 0x00)) = length ''valid-signature''"
      by (rule arg_cong)
    then show False by simp
  qed
  have h: "publicKeyHash = Str (''hash-'' @ to_string publicKey)"
    by (simp add: publicKeyHash_def publicKey_def)
  show ?thesis
    unfolding p2pkh_demo_def h
    using p2pkh_valid_and_invalid_signature
      [of signature publicKey "Str (replicate 71 (CHR 0x00))"] ne
    by blast
qed

text \<open>
  C1, as the code has it. The verdict of a run is \<open>VALID\<close> if and only if, after the last
  opcode, the stack is not empty and its top item is the number \<open>1\<close>; the items below the
  top are not counted. The P2SH run always ends with three items on the stack, the two
  signatures under the result of \<open>OP_EQUAL\<close>.
\<close>

theorem verdict_reads_top_item_only:
  "(validation_result s = VALID) = (items s \<noteq> [] \<and> last (items s) = Num 1) \<and>
   snd (p2sh_run a b r h)
     = \<lparr>items = [a, b, Num (if Str (''hash-'' @ to_string r) = h then 1 else 0)]\<rparr>"
  by (simp add: validation_result_VALID p2sh_run_eq)

theorem verdict_reads_top_item_only_witness:
  "validation_result (snd p2sh_demo) = VALID \<and>
   snd p2sh_demo = \<lparr>items = [sig1, sig2, Num 1]\<rparr>"
proof -
  note th = verdict_reads_top_item_only
    [where s = "snd p2sh_demo" and a = sig1 and b = sig2 and r = redeemScript
       and h = redeemScriptHash]
  have fin: "snd p2sh_demo = \<lparr>items = [sig1, sig2, Num 1]\<rparr>"
    using th by (simp add: p2sh_demo_def redeemScript_def redeemScriptHash_def)
  have "validation_result (snd p2sh_demo) = VALID"
    using th fin by simp
  with fin show ?thesis by simp
qed

text \<open>
  C1, as the claim states it, fails on the script's own P2SH run: the verdict is
  \<open>VALID\<close> although three items remain on the stack.
\<close>

theorem p2sh_demo_valid_with_three_items:
  "\<not> (validation_result (snd p2sh_demo) = VALID \<longrightarrow> length (items (snd p2sh_demo)) = 1)"
  by (simp add: p2sh_demo_def p2sh_run_eq validation_result_VALID redeemScript_def
      redeemScriptHash_def)

text \<open>
  C5, as the code has it. On a non-empty stack \<open>OP_HASH160\<close> pops the top item and
  pushes the simulated hash: the text \<open>hash-\<close> followed by the item's text, five
  characters longer than the item.
\<close>

theorem OP_HASH160_pushes_prefixed_item:
  "items s = rest @ [x] \<Longrightarrow>
     OP_HASH160 s = (True, s\<lparr>items := rest @ [Str (''hash-'' @ to_string x)]\<rparr>) \<and>
     length (''hash-'' @ to_string x) = 5 + length (to_string x)"
  by (simp add: OP_HASH160_snoc)

theorem OP_HASH160_pushes_prefixed_item_witness:
  "OP_HASH160 \<lparr>items = [sig1, sig2, redeemScript]\<rparr>
     = (True, \<lparr>items = [sig1, sig2, redeemScriptHash]\<rparr>)"
  using OP_HASH160_pushes_prefixed_item
    [of "\<lparr>items = [sig1, sig2, redeemScript]\<rparr>" "[sig1, sig2]" redeemScript]
  by (simp add: redeemScript_def redeemScriptHash_def)

text \<open>
  C5, as the claim states it, fails on the script's public key: the value pushed is
  the 22-character text \<open>hash-actual-public-key\<close>, not a 20-byte digest.
\<close>

theorem OP_HASH160_not_20_bytes:
  "snd (OP_HASH160 \<lparr>items = [publicKey]\<rparr>) = \<lparr>items = [Str ''hash-actual-public-key'']\<rparr> \<and>
   \<not> length (to_string (last (items (snd (OP_HASH160 \<lparr>items = [publicKey]\<rparr>))))) = 20"
proof -
  have "OP_HASH160 \<lparr>items = [publicKey]\<rparr>
          = (True, \<lparr>items = [Str ''hash-actual-public-key'']\<rparr>)"
    using OP_HASH160_snoc [of "\<lparr>items = [publicKey]\<rparr>" "[]" publicKey]
    by (simp add: publicKey_def)
  then show ?thesis by simp
qed

text \<open>
  C3, as the code has it. \<open>OP_EQUAL\<close> gives the same result on a stack whose two top
  items are \<open>a\<close>, \<open>b\<close> and on the stack with the two exchanged. On every stack with at
  least two items \<open>OP_EQUAL\<close> reports success, \<open>OP_EQUALVERIFY\<close> returns false if and
  only if \<open>OP_EQUAL\<close> on the same stack pushes the falsy value \<open>0\<close>, and
  \<open>OP_EQUALVERIFY\<close> leaves the stack of \<open>OP_EQUAL\<close> without the pushed result. The
  value returned by \<open>OP_EQUALVERIFY\<close> does not end the P2PKH run: \<open>OP_CHECKSIG\<close> is
  executed after it, and the final stack is the result of the signature check alone.
\<close>

theorem OP_EQUALVERIFY_reports_without_abort:
  "OP_EQUAL (s\<lparr>items := rest @ [a, b]\<rparr>) = OP_EQUAL (s\<lparr>items := rest @ [b, a]\<rparr>) \<and>
   (2 \<le> length (items t) \<longrightarrow>
      fst (OP_EQUAL t) \<and>
      (\<not> fst (OP_EQUALVERIFY t)) = (peek (snd (OP_EQUAL t)) = Some (Num 0)) \<and>
      items (snd (OP_EQUAL t))
        = items (snd (OP_EQUALVERIFY t)) @ [Num (if fst (OP_EQUALVERIFY t) then 1 else 0)]) \<and>
   p2pkh_run sg pk h k g
     = ([True, True, Str (''hash-'' @ to_string pk) = h, True],
        \<lparr>items = [Num (if pk = k \<and> sg = g then 1 else 0)]\<rparr>)"
proof -
  have sym: "OP_EQUAL (s\<lparr>items := rest @ [a, b]\<rparr>) = OP_EQUAL (s\<lparr>items := rest @ [b, a]\<rparr>)"
    using OP_EQUAL_two [of "s\<lparr>items := rest @ [a, b]\<rparr>" rest a b]
      OP_EQUAL_two [of "s\<lparr>items := rest @ [b, a]\<rparr>" rest b a]
    by auto
  have ver: "fst (OP_EQUAL t) \<and>
      (\<not> fst (OP_EQUALVERIFY t)) = (peek (snd (OP_EQUAL t)) = Some (Num 0)) \<and>
      items (snd (OP_EQUAL t))
        = items (snd (OP_EQUALVERIFY t)) @ [Num (if fst (OP_EQUALVERIFY t) then 1 else 0)]"
    if "2 \<le> length (items t)"
  proof -
    from that obtain r x y where "items t = r @ [x, y]"
      using two_items by blast
    then show ?thesis
      by (simp add: OP_EQUAL_two OP_EQUALVERIFY_two peek_last)
  qed
  have run: "p2pkh_run sg pk h k g
     = ([True, True, Str (''hash-'' @ to_string pk) = h, True],
        \<lparr>items = [Num (if pk = k \<and> sg = g then 1 else 0)]\<rparr>)"
    by (rule p2pkh_run_eq)
  from sym ver run show ?thesis by blast
qed

theorem OP_EQUALVERIFY_reports_without_abort_witness:
  "OP_EQUAL \<lparr>items = [sig1, sig2]\<rparr> = OP_EQUAL \<lparr>items = [sig2, sig1]\<rparr> \<and>
   2 \<le> length (items \<lparr>items = [sig1, redeemScript]\<rparr>) \<and>
   \<not> fst (OP_EQUALVERIFY \<lparr>items = [sig1, redeemScript]\<rparr>) \<and>
   peek (snd (OP_EQUAL \<lparr>items = [sig1, redeemScript]\<rparr>)) = Some (Num 0) \<and>
   p2pkh_run signature publicKey redeemScriptHash publicKey signature
     = ([True, True, False, True], \<lparr>items = [Num 1]\<rparr>)"
proof -
  have ne: "sig1 \<noteq> redeemScript"
    by (simp add: sig1_def redeemScript_def)
  have v: "\<not> fst (OP_EQUALVERIFY \<lparr>items = [sig1, redeemScript]\<rparr>)"
    using OP_EQUALVERIFY_two [of "\<lparr>items = [sig1, redeemScript]\<rparr>" "[]" sig1 redeemScript] ne
    by simp
  have hne: "Str (''hash-'' @ to_string publicKey) \<noteq> redeemScriptHash"
    by (simp add: publicKey_def redeemScriptHash_def)
  note th = OP_EQUALVERIFY_reports_without_abort
      [where s = "\<lparr>items = []\<rparr>" and rest = "[]" and a = sig1 and b = sig2
        and t = "\<lparr>items = [sig1, redeemScript]\<rparr>"
        and sg = signature and pk = publicKey and h = redeemScriptHash
        and k = publicKey and g = signature]
  show ?thesis
    using th v hne by simp
qed

text \<open>
  C3, as the claim states it, fails on the P2PKH run with a hash in the locking script
  that is not the hash of the public key: on the stack that \<open>OP_EQUALVERIFY\<close> receives,
  \<open>OP_EQUAL\<close> pushes \<open>0\<close> and \<open>OP_EQUALVERIFY\<close> returns false, yet the evaluation is not
  aborted: \<open>OP_CHECKSIG\<close> runs, pushes \<open>1\<close>, and the verdict is \<open>VALID\<close>.
\<close>

theorem EQUALVERIFY_mismatch_run_continues:
  "2 \<le> length (items \<lparr>items = [signature, publicKey, publicKeyHash, Str ''hash-other-key'']\<rparr>) \<and>
   peek (snd (OP_EQUAL \<lparr>items = [signature, publicKey, publicKeyHash, Str ''hash-other-key'']\<rparr>))
     = Some (Num 0) \<and>
   p2pkh_run signature publicKey (Str ''hash-other-key'') publicKey signature
     = ([True, True, False, True], \<lparr>items = [Num 1]\<rparr>) \<and>
   validation_result (snd (p2pkh_run signature publicKey (Str ''hash-other-key'') publicKey signature))
     = VALID"
proof -
  have e: "OP_EQUAL \<lparr>items = [signature, publicKey, publicKeyHash, Str ''hash-other-key'']\<rparr>
             = (True, \<lparr>items = [signature, publicKey, Num 0]\<rparr>)"
    using OP_EQUAL_two
      [of "\<lparr>items = [signature, publicKey, publicKeyHash, Str ''hash-other-key'']\<rparr>"
        "[signature, publicKey]" publicKeyHash "Str ''hash-other-key''"]
    by (simp add: publicKeyHash_def)
  have r: "p2pkh_run signature publicKey (Str ''hash-other-key'') publicKey signature
             = ([True, True, False, True], \<lparr>items = [Num 1]\<rparr>)"
    by (simp add: p2pkh_run_eq publicKey_def)
  show ?thesis
    by (simp add: e r validation_result_VALID peek_last)
qed




end
